theory Spec2Isabelle
  imports Main "HOL-Library.Char_ord" "HOL-Library.List_Lexorder"
begin

unbundle bit_operations_syntax

section \<open>Python values\<close>

text \<open>
  Python \<open>bytes\<close> are lists of bytes (\<open>char\<close> is an 8-bit value). A Python \<open>str\<close>
  is represented by its UTF-8 encoding, so \<open>s.encode()\<close> is the identity and
  \<open>b.decode()\<close> succeeds, with the same representation, exactly on well-formed UTF-8.
  Operations that count or classify characters (\<open>len\<close>, slicing, \<open>split\<close>,
  \<open>splitlines\<close>, \<open>strip\<close>) work on the code points of the representation.
\<close>

type_synonym bytes = string
type_synonym str = string

abbreviation NUL :: char where "NUL \<equiv> CHR 0x00"

abbreviation LF :: char where "LF \<equiv> CHR 0x0A"

abbreviation CR :: char where "CR \<equiv> CHR 0x0D"

datatype error =
    FileNotFoundError
  | IsADirectoryError
  | ValueError str
  | UnicodeDecodeError
  | ZlibError
  | StructError
  | AssertionError
  | StopIteration
  | KeyError
  | IndexError
  | URLError

definition byte :: "char \<Rightarrow> nat" where
  "byte c = of_char c"

subsection \<open>Code points of a UTF-8 string\<close>

definition is_cont :: "char \<Rightarrow> bool" where
  "is_cont b = (128 \<le> byte b \<and> byte b < 192)"

definition second_ok :: "nat \<Rightarrow> char \<Rightarrow> bool" where
  "second_ok n b =
     (if n = 0xE0 then 0xA0 \<le> byte b \<and> byte b \<le> 0xBF
      else if n = 0xED then 0x80 \<le> byte b \<and> byte b \<le> 0x9F
      else if n = 0xF0 then 0x90 \<le> byte b \<and> byte b \<le> 0xBF
      else if n = 0xF4 then 0x80 \<le> byte b \<and> byte b \<le> 0x8F
      else is_cont b)"

text \<open>The strict UTF-8 decoder of \<open>bytes.decode()\<close>: no overlong forms, no surrogates,
  nothing above U+10FFFF.\<close>

fun utf8_valid :: "bytes \<Rightarrow> bool" where
  "utf8_valid [] = True"
| "utf8_valid (a # bs) =
     (if byte a < 0x80 then utf8_valid bs
      else if 0xC2 \<le> byte a \<and> byte a \<le> 0xDF then
        (case bs of b # r \<Rightarrow> is_cont b \<and> utf8_valid r | _ \<Rightarrow> False)
      else if 0xE0 \<le> byte a \<and> byte a \<le> 0xEF then
        (case bs of b # c # r \<Rightarrow> second_ok (byte a) b \<and> is_cont c \<and> utf8_valid r
         | _ \<Rightarrow> False)
      else if 0xF0 \<le> byte a \<and> byte a \<le> 0xF4 then
        (case bs of b # c # d # r \<Rightarrow>
              second_ok (byte a) b \<and> is_cont c \<and> is_cont d \<and> utf8_valid r
         | _ \<Rightarrow> False)
      else False)"

definition decode :: "bytes \<Rightarrow> error + str" where
  "decode b = (if utf8_valid b then Inr b else Inl UnicodeDecodeError)"

text \<open>The code points of a string, each as its run of bytes: a lead byte and the
  continuation bytes after it.\<close>

function cps :: "str \<Rightarrow> string list" where
  "cps [] = []"
| "cps (c # cs) = (c # takeWhile is_cont cs) # cps (dropWhile is_cont cs)"
  by pat_completeness auto
termination
  by (relation "measure length") (auto simp: length_dropWhile_le less_Suc_eq_le)

definition lead_bits :: "nat \<Rightarrow> nat" where
  "lead_bits a = (if a < 0x80 then a else if a < 0xE0 then a mod 32
                  else if a < 0xF0 then a mod 16 else a mod 8)"

fun cp_value :: "string \<Rightarrow> nat" where
  "cp_value [] = 0"
| "cp_value (a # rest) = foldl (\<lambda>v b. v * 64 + byte b mod 64) (lead_bits (byte a)) rest"

definition str_len :: "str \<Rightarrow> nat" where
  "str_len s = length (cps s)"

text \<open>\<open>s[a:b]\<close> for \<open>0 \<le> a \<le> b\<close>, \<open>s[:b]\<close> and \<open>s[a:]\<close>.\<close>

definition str_slice :: "str \<Rightarrow> nat \<Rightarrow> nat \<Rightarrow> str" where
  "str_slice s a b = concat (take (b - a) (drop a (cps s)))"

definition str_take :: "nat \<Rightarrow> str \<Rightarrow> str" where
  "str_take b s = concat (take b (cps s))"

definition str_drop :: "nat \<Rightarrow> str \<Rightarrow> str" where
  "str_drop a s = concat (drop a (cps s))"

definition startswith :: "string \<Rightarrow> string \<Rightarrow> bool" where
  "startswith s p = (take (length p) s = p)"

subsection \<open>Whitespace and lines\<close>

text \<open>\<open>str.isspace\<close> and the line boundaries of \<open>str.splitlines\<close>, by code point.\<close>

definition is_space_cp :: "nat \<Rightarrow> bool" where
  "is_space_cp n =
     ((9 \<le> n \<and> n \<le> 13) \<or> (28 \<le> n \<and> n \<le> 32) \<or> n = 0x85 \<or> n = 0xA0 \<or> n = 0x1680
      \<or> (0x2000 \<le> n \<and> n \<le> 0x200A) \<or> n = 0x2028 \<or> n = 0x2029 \<or> n = 0x202F
      \<or> n = 0x205F \<or> n = 0x3000)"

definition is_linebreak_cp :: "nat \<Rightarrow> bool" where
  "is_linebreak_cp n =
     ((10 \<le> n \<and> n \<le> 13) \<or> (28 \<le> n \<and> n \<le> 30) \<or> n = 0x85 \<or> n = 0x2028
      \<or> n = 0x2029)"

text \<open>\<open>bytes.isspace\<close>: the six ASCII whitespace bytes.\<close>

definition is_space_byte :: "char \<Rightarrow> bool" where
  "is_space_byte c = ((9 \<le> byte c \<and> byte c \<le> 13) \<or> byte c = 32)"

text \<open>Splitting a list of items at separator runs, dropping empty fields: the scheme of
  \<open>split()\<close> without arguments. \<open>cur\<close> is the field being read.\<close>

fun split_fields :: "('a \<Rightarrow> bool) \<Rightarrow> 'a list \<Rightarrow> 'a list \<Rightarrow> 'a list list" where
  "split_fields sep [] cur = (if cur = [] then [] else [cur])"
| "split_fields sep (x # xs) cur =
     (if sep x then (if cur = [] then split_fields sep xs [] else cur # split_fields sep xs [])
      else split_fields sep xs (cur @ [x]))"

definition str_split :: "str \<Rightarrow> str list" where
  "str_split s = map concat (split_fields (\<lambda>c. is_space_cp (cp_value c)) (cps s) [])"

definition bytes_split :: "bytes \<Rightarrow> bytes list" where
  "bytes_split b = split_fields is_space_byte b []"

text \<open>\<open>str.splitlines()\<close>: a line ends at a line boundary (\<open>\r\n\<close> counts once); the
  boundary is not part of the line; no empty line is reported after a final boundary.\<close>

fun splitlines_aux :: "string list \<Rightarrow> str \<Rightarrow> str list" where
  "splitlines_aux [] cur = (if cur = [] then [] else [cur])"
| "splitlines_aux (c # cs) cur =
     (if c = [CR] then
        (case cs of d # ds \<Rightarrow>
            if d = [LF] then cur # splitlines_aux ds [] else cur # splitlines_aux cs []
         | [] \<Rightarrow> [cur])
      else if is_linebreak_cp (cp_value c) then cur # splitlines_aux cs []
      else splitlines_aux cs (cur @ c))"

definition splitlines :: "str \<Rightarrow> str list" where
  "splitlines s = splitlines_aux (cps s) []"

definition str_strip :: "str \<Rightarrow> str" where
  "str_strip s =
     concat (rev (dropWhile (\<lambda>c. is_space_cp (cp_value c))
       (rev (dropWhile (\<lambda>c. is_space_cp (cp_value c)) (cps s)))))"

text \<open>\<open>bytes.split(sep)\<close> for a one-byte separator: every separator ends a field.\<close>

fun split_on :: "char \<Rightarrow> bytes \<Rightarrow> bytes \<Rightarrow> bytes list" where
  "split_on sep [] cur = [cur]"
| "split_on sep (x # xs) cur =
     (if x = sep then cur # split_on sep xs [] else split_on sep xs (cur @ [x]))"

text \<open>\<open>b.split(b'\x00', 1)\<close>: one field when there is no NUL, else the text before the
  first NUL and everything after it.\<close>

definition split_nul1 :: "bytes \<Rightarrow> bytes list" where
  "split_nul1 b =
     (if NUL \<in> set b then [takeWhile (\<lambda>c. c \<noteq> NUL) b, tl (dropWhile (\<lambda>c. c \<noteq> NUL) b)]
      else [b])"

text \<open>\<open>sub in b\<close> for bytes.\<close>

fun contains :: "bytes \<Rightarrow> bytes \<Rightarrow> bool" where
  "contains [] sub = (sub = [])"
| "contains (x # xs) sub = (startswith (x # xs) sub \<or> contains xs sub)"

subsection \<open>Numbers as text, numbers as bytes\<close>

definition digit_char :: "nat \<Rightarrow> char" where
  "digit_char d = ''0123456789abcdef'' ! (d mod 16)"

function to_base :: "nat \<Rightarrow> nat \<Rightarrow> str" where
  "to_base b n = (if n < b \<or> b < 2 then [digit_char n]
                  else to_base b (n div b) @ [digit_char (n mod b)])"
  by pat_completeness auto
termination
  by (relation "measure snd") auto

declare to_base.simps [simp del]

text \<open>\<open>str(n)\<close> and \<open>'{}'.format(n)\<close>; \<open>'{:o}'.format(n)\<close>; \<open>'{:02}'.format(n)\<close> and
  \<open>'{:04x}'.format(n)\<close> for \<open>n \<ge> 0\<close>.\<close>

definition py_str :: "int \<Rightarrow> str" where
  "py_str n = (if n < 0 then ''-'' @ to_base 10 (nat (- n)) else to_base 10 (nat n))"

definition py_oct :: "int \<Rightarrow> str" where
  "py_oct n = (if n < 0 then ''-'' @ to_base 8 (nat (- n)) else to_base 8 (nat n))"

definition zero_pad :: "nat \<Rightarrow> str \<Rightarrow> str" where
  "zero_pad w s = replicate (w - length s) CHR ''0'' @ s"

text \<open>\<open>bytes.hex()\<close>.\<close>

definition hex :: "bytes \<Rightarrow> str" where
  "hex b = concat (map (\<lambda>c. [digit_char (byte c div 16), digit_char (byte c mod 16)]) b)"

text \<open>Big-endian fields of \<open>struct\<close>: \<open>L\<close> is four bytes, \<open>H\<close> two; packing a
  value out of range raises \<open>struct.error\<close>.\<close>

definition be_bytes :: "nat \<Rightarrow> nat \<Rightarrow> bytes" where
  "be_bytes w n = map (\<lambda>k. char_of (n div 256 ^ k)) (rev [0..<w])"

definition be_value :: "bytes \<Rightarrow> int" where
  "be_value b = foldl (\<lambda>v c. v * 256 + int (byte c)) 0 b"

definition pack_uint :: "nat \<Rightarrow> int \<Rightarrow> error + bytes" where
  "pack_uint w n = (if 0 \<le> n \<and> n < 256 ^ w then Inr (be_bytes w (nat n)) else Inl StructError)"

text \<open>The \<open>Ns\<close> field of \<open>struct.pack\<close>: cut or NUL-padded to \<open>N\<close> bytes.\<close>

definition pack_s :: "nat \<Rightarrow> bytes \<Rightarrow> bytes" where
  "pack_s w b = take w b @ replicate (w - length b) NUL"

section \<open>The libraries and the file system\<close>

text \<open>
  \<open>hashlib.sha1\<close> and \<open>zlib\<close> are not code of the repository: they are parameters.
  \<open>lib_sha1\<close> is \<open>hashlib.sha1(b).digest()\<close>; \<open>zlib_decompress\<close> gives \<open>None\<close> where
  \<open>zlib.decompress\<close> raises \<open>zlib.error\<close>.
\<close>

record lib =
  lib_sha1 :: "bytes \<Rightarrow> bytes"
  zlib_compress :: "bytes \<Rightarrow> bytes"
  zlib_decompress :: "bytes \<Rightarrow> bytes option"

definition hexdigest :: "lib \<Rightarrow> bytes \<Rightarrow> str" where
  "hexdigest L b = hex (lib_sha1 L b)"

text \<open>
  The file system maps each path at which something exists to what is there: a regular
  file with its content, or a directory. \<open>os.path.exists\<close> holds of both, and opening a
  directory raises \<open>IsADirectoryError\<close>. The directories on the way to a file that is
  written are taken to exist, or to be there once \<open>os.makedirs\<close> has run: \<open>os.makedirs\<close>
  changes nothing, and writing a file fails only when its path is that of a directory.
\<close>

datatype node = File bytes | Dir

type_synonym fs = "str \<rightharpoonup> node"

text \<open>\<open>open(p, 'rb').read()\<close> and \<open>open(p, 'wb').write(data)\<close>.\<close>

definition read_file :: "fs \<Rightarrow> str \<Rightarrow> error + bytes" where
  "read_file files p =
     (case files p of
        None \<Rightarrow> Inl FileNotFoundError
      | Some Dir \<Rightarrow> Inl IsADirectoryError
      | Some (File data) \<Rightarrow> Inr data)"

definition write_file :: "fs \<Rightarrow> str \<Rightarrow> bytes \<Rightarrow> error + fs" where
  "write_file files p data =
     (case files p of
        Some Dir \<Rightarrow> Inl IsADirectoryError
      | _ \<Rightarrow> Inr (files(p \<mapsto> File data)))"

definition join2 :: "str \<Rightarrow> str \<Rightarrow> str" where
  "join2 a b = (if startswith b ''/'' then b
                else if a = [] \<or> last a = CHR ''/'' then a @ b
                else a @ ''/'' @ b)"

definition os_path_join :: "str \<Rightarrow> str list \<Rightarrow> str" where
  "os_path_join a ps = foldl join2 a ps"

section \<open>object\_store.py\<close>

definition compute_hash :: "lib \<Rightarrow> bytes \<Rightarrow> str \<Rightarrow> str \<times> bytes" where
  "compute_hash L data obj_type =
     (let header = obj_type @ '' '' @ py_str (int (length data));
          full_data = header @ [NUL] @ data
      in (hexdigest L full_data, full_data))"

definition object_path :: "str \<Rightarrow> str \<Rightarrow> str" where
  "object_path repo_path sha1_hash =
     os_path_join repo_path
       [''.git'', ''objects'', str_take 2 sha1_hash, str_drop 2 sha1_hash]"

text \<open>\<open>store_object\<close> returns the hash and the file system it leaves.\<close>

definition store_object :: "lib \<Rightarrow> bytes \<Rightarrow> str \<Rightarrow> str \<Rightarrow> fs \<Rightarrow> str \<times> fs" where
  "store_object L data obj_type repo_path files =
     (let (sha1_hash, full_data) = compute_hash L data obj_type;
          path = object_path repo_path sha1_hash
      in if files path = None
         then (sha1_hash, files(path \<mapsto> File (zlib_compress L full_data)))
         else (sha1_hash, files))"

definition retrieve_object :: "lib \<Rightarrow> fs \<Rightarrow> str \<Rightarrow> str \<Rightarrow> error + (str \<times> bytes)" where
  "retrieve_object L files repo_path sha1_hash =
     (if files (object_path repo_path sha1_hash) = None then Inl FileNotFoundError
      else
        (case read_file files (object_path repo_path sha1_hash) of
           Inl e \<Rightarrow> Inl e
         | Inr compressed_data \<Rightarrow>
             (case zlib_decompress L compressed_data of
                None \<Rightarrow> Inl ZlibError
              | Some full_data \<Rightarrow>
                  (case split_nul1 full_data of
                     [header, data] \<Rightarrow>
                       (case decode header of
                          Inl e \<Rightarrow> Inl e
                        | Inr h \<Rightarrow>
                            (case str_split h of
                               [obj_type, _] \<Rightarrow> Inr (obj_type, data)
                             | [] \<Rightarrow>
                                 Inl (ValueError ''not enough values to unpack (expected 2, got 0)'')
                             | [_] \<Rightarrow>
                                 Inl (ValueError ''not enough values to unpack (expected 2, got 1)'')
                             | _ \<Rightarrow> Inl (ValueError ''too many values to unpack (expected 2)'')))
                   | _ \<Rightarrow> Inl (ValueError ''not enough values to unpack (expected 2, got 1)'')))))"


section \<open>index\_manager.py\<close>

record IndexEntry =
  ctime_s :: int
  ctime_n :: int
  mtime_s :: int
  mtime_n :: int
  dev :: int
  ino :: int
  mode :: int
  uid :: int
  gid :: int
  size' :: int
  sha1 :: bytes
  flags :: int
  path :: str

definition slice :: "bytes \<Rightarrow> nat \<Rightarrow> nat \<Rightarrow> bytes" where
  "slice b i j = take (j - i) (drop i b)"

text \<open>\<open>b.index(c, start)\<close>: \<open>None\<close> where Python raises \<open>ValueError\<close>.\<close>

definition index_from :: "bytes \<Rightarrow> char \<Rightarrow> nat \<Rightarrow> nat option" where
  "index_from b c start =
     (if c \<in> set (drop start b)
      then Some (start + length (takeWhile (\<lambda>x. x \<noteq> c) (drop start b)))
      else None)"

definition index_file_path :: "str \<Rightarrow> str" where
  "index_file_path repo_path = os_path_join repo_path [''.git'', ''index'']"

definition unpack_entry :: "bytes \<Rightarrow> nat \<Rightarrow> str \<Rightarrow> IndexEntry" where
  "unpack_entry entry_data i p =
     \<lparr> ctime_s = be_value (slice entry_data i (i + 4)),
       ctime_n = be_value (slice entry_data (i + 4) (i + 8)),
       mtime_s = be_value (slice entry_data (i + 8) (i + 12)),
       mtime_n = be_value (slice entry_data (i + 12) (i + 16)),
       dev = be_value (slice entry_data (i + 16) (i + 20)),
       ino = be_value (slice entry_data (i + 20) (i + 24)),
       mode = be_value (slice entry_data (i + 24) (i + 28)),
       uid = be_value (slice entry_data (i + 28) (i + 32)),
       gid = be_value (slice entry_data (i + 32) (i + 36)),
       size' = be_value (slice entry_data (i + 36) (i + 40)),
       sha1 = slice entry_data (i + 40) (i + 60),
       flags = be_value (slice entry_data (i + 60) (i + 62)),
       path = p \<rparr>"

text \<open>The \<open>while\<close> loop of \<open>read_index\<close>. Every round advances \<open>i\<close> by at least 64.\<close>

function read_entries :: "bytes \<Rightarrow> nat \<Rightarrow> IndexEntry list \<Rightarrow> error + IndexEntry list" where
  "read_entries entry_data i entries =
     (if i + 62 \<le> length entry_data then
        (case index_from entry_data NUL (i + 62) of
           None \<Rightarrow> Inl (ValueError ''subsection not found'')
         | Some path_end \<Rightarrow>
             (case decode (slice entry_data (i + 62) path_end) of
                Inl e \<Rightarrow> Inl e
              | Inr p \<Rightarrow>
                  read_entries entry_data (i + ((62 + str_len p + 8) div 8) * 8)
                    (entries @ [unpack_entry entry_data i p])))
      else Inr entries)"
  by pat_completeness auto
termination
  by (relation "measure (\<lambda>(entry_data, i, entries). length entry_data - i)") auto

declare read_entries.simps [simp del]

definition read_index :: "fs \<Rightarrow> str \<Rightarrow> error + IndexEntry list" where
  "read_index files repo_path =
     (if files (index_file_path repo_path) = None then Inr []
      else
        (case read_file files (index_file_path repo_path) of
           Inl e \<Rightarrow> Inl e
         | Inr data \<Rightarrow>
             if length (take 12 data) \<noteq> 12 then Inl StructError
             else if slice data 0 4 \<noteq> ''DIRC''
               then Inl (ValueError ''Invalid index file signature'')
             else if be_value (slice data 4 8) \<noteq> 2
               then Inl (ValueError ''Unsupported index file version'')
             else read_entries (drop 12 data) 0 []))"

definition pack_entry :: "IndexEntry \<Rightarrow> error + bytes" where
  "pack_entry entry =
     (case pack_uint 2 (flags entry) of
        Inl e \<Rightarrow> Inl e
      | Inr fl \<Rightarrow>
          Inr (be_bytes 4 (nat (ctime_s entry AND 0xFFFFFFFF))
             @ be_bytes 4 (nat (ctime_n entry AND 0xFFFFFFFF))
             @ be_bytes 4 (nat (mtime_s entry AND 0xFFFFFFFF))
             @ be_bytes 4 (nat (mtime_n entry AND 0xFFFFFFFF))
             @ be_bytes 4 (nat (dev entry AND 0xFFFFFFFF))
             @ be_bytes 4 (nat (ino entry AND 0xFFFFFFFF))
             @ be_bytes 4 (nat (mode entry AND 0xFFFFFFFF))
             @ be_bytes 4 (nat (uid entry AND 0xFFFFFFFF))
             @ be_bytes 4 (nat (gid entry AND 0xFFFFFFFF))
             @ be_bytes 4 (nat (size' entry AND 0xFFFFFFFF))
             @ pack_s 20 (sha1 entry) @ fl @ path entry @ [NUL]))"

text \<open>The \<open>for\<close> loop of \<open>write_index\<close>: the padding is counted from the length of
  the encoded path.\<close>

fun write_entries :: "IndexEntry list \<Rightarrow> bytes \<Rightarrow> error + bytes" where
  "write_entries [] data = Inr data"
| "write_entries (entry # rest) data =
     (case pack_entry entry of
        Inl e \<Rightarrow> Inl e
      | Inr entry_data \<Rightarrow>
          write_entries rest
            (data @ entry_data
              @ replicate ((62 + length (path entry) + 8) div 8 * 8 - length entry_data) NUL))"

definition index_bytes :: "lib \<Rightarrow> IndexEntry list \<Rightarrow> error + bytes" where
  "index_bytes L entries =
     (case pack_uint 4 (int (length entries)) of
        Inl e \<Rightarrow> Inl e
      | Inr count \<Rightarrow>
          (case write_entries entries (''DIRC'' @ be_bytes 4 2 @ count) of
             Inl e \<Rightarrow> Inl e
           | Inr data \<Rightarrow> Inr (data @ lib_sha1 L data)))"

definition write_index :: "lib \<Rightarrow> IndexEntry list \<Rightarrow> str \<Rightarrow> fs \<Rightarrow> error + fs" where
  "write_index L entries repo_path files =
     (case index_bytes L entries of
        Inl e \<Rightarrow> Inl e
      | Inr data \<Rightarrow> write_file files (index_file_path repo_path) data)"

text \<open>What \<open>os.stat\<close> reports; \<open>st_ctime\<close> and \<open>st_mtime\<close> stand for the integer parts
  that \<open>add_to_index\<close> takes of them.\<close>

record stat_result =
  st_ctime :: int
  st_mtime :: int
  st_dev :: int
  st_ino :: int
  st_mode :: int
  st_uid :: int
  st_gid :: int
  st_size :: int

text \<open>A \<open>dict\<close> keeps its keys in insertion order; assigning to a key that is present
  keeps the key's place.\<close>

definition dict_set :: "('k \<times> 'v) list \<Rightarrow> 'k \<Rightarrow> 'v \<Rightarrow> ('k \<times> 'v) list" where
  "dict_set d k v =
     (if k \<in> fst ` set d then map (\<lambda>(k', v'). if k' = k then (k', v) else (k', v')) d
      else d @ [(k, v)])"

fun add_paths ::
  "lib \<Rightarrow> (str \<Rightarrow> stat_result) \<Rightarrow> str list \<Rightarrow> str \<Rightarrow> (str \<times> IndexEntry) list \<Rightarrow> fs
     \<Rightarrow> error + ((str \<times> IndexEntry) list \<times> fs)" where
  "add_paths L os_stat [] repo_path entries files = Inr (entries, files)"
| "add_paths L os_stat (p # ps) repo_path entries files =
     (case read_file files p of
        Inl e \<Rightarrow> Inl e
      | Inr data \<Rightarrow>
          (let (sha1_hash, files') = store_object L data ''blob'' repo_path files;
               stat_info = os_stat p;
               entry = \<lparr> ctime_s = st_ctime stat_info AND 0xFFFFFFFF, ctime_n = 0,
                         mtime_s = st_mtime stat_info AND 0xFFFFFFFF, mtime_n = 0,
                         dev = st_dev stat_info AND 0xFFFFFFFF,
                         ino = st_ino stat_info AND 0xFFFFFFFF,
                         mode = st_mode stat_info AND 0xFFFFFFFF,
                         uid = st_uid stat_info AND 0xFFFFFFFF,
                         gid = st_gid stat_info AND 0xFFFFFFFF,
                         size' = st_size stat_info AND 0xFFFFFFFF,
                         sha1 = sha1_hash, flags = 0, path = p \<rparr>
           in add_paths L os_stat ps repo_path (dict_set entries p entry) files'))"

text \<open>\<open>add_to_index\<close> returns the file system it leaves; the line it prints is left
  out.\<close>

definition add_to_index ::
  "lib \<Rightarrow> (str \<Rightarrow> stat_result) \<Rightarrow> str list \<Rightarrow> str \<Rightarrow> fs \<Rightarrow> error + fs" where
  "add_to_index L os_stat paths repo_path files =
     (case read_index files repo_path of
        Inl e \<Rightarrow> Inl e
      | Inr old \<Rightarrow>
          (case add_paths L os_stat paths repo_path
                  (foldl (\<lambda>d entry. dict_set d (path entry) entry) [] old) files of
             Inl e \<Rightarrow> Inl e
           | Inr (entries, files') \<Rightarrow> write_index L (map snd entries) repo_path files'))"

text \<open>\<open>list_index\<close> returns the lines it prints.\<close>

definition list_index :: "fs \<Rightarrow> str \<Rightarrow> error + str list" where
  "list_index files repo_path =
     (case read_index files repo_path of
        Inl e \<Rightarrow> Inl e
      | Inr entries \<Rightarrow>
          Inr (map (\<lambda>entry. py_oct (mode entry) @ '' '' @ hex (sha1 entry) @ '' '' @ path entry)
                 entries))"

section \<open>commit\_manager.py\<close>

fun tree_entries :: "IndexEntry list \<Rightarrow> bytes list" where
  "tree_entries [] = []"
| "tree_entries (entry # rest) =
     ((py_oct (mode entry) @ '' '' @ path entry) @ [NUL] @ sha1 entry) # tree_entries rest"

definition write_tree :: "lib \<Rightarrow> str \<Rightarrow> fs \<Rightarrow> error + (str \<times> fs)" where
  "write_tree L repo_path files =
     (case read_index files repo_path of
        Inl e \<Rightarrow> Inl e
      | Inr entries \<Rightarrow> Inr (store_object L (concat (tree_entries entries)) ''tree'' repo_path files))"

definition master_ref_path :: "str \<Rightarrow> str" where
  "master_ref_path repo_path = os_path_join repo_path [''.git'', ''refs'', ''heads'', ''master'']"

text \<open>Reading a file opened in text mode: the bytes are decoded (as UTF-8) and every
  \<open>\r\n\<close> and \<open>\r\<close> becomes \<open>\n\<close>.\<close>

fun universal_newlines :: "str \<Rightarrow> str" where
  "universal_newlines [] = []"
| "universal_newlines (c # cs) =
     (if c = CR then
        (case cs of d # ds \<Rightarrow>
            if d = LF then LF # universal_newlines ds else LF # universal_newlines cs
         | [] \<Rightarrow> [LF])
      else c # universal_newlines cs)"

definition get_latest_commit :: "fs \<Rightarrow> str \<Rightarrow> error + str option" where
  "get_latest_commit files repo_path =
     (if files (master_ref_path repo_path) = None then Inr None
      else
        (case read_file files (master_ref_path repo_path) of
           Inl e \<Rightarrow> Inl e
         | Inr content \<Rightarrow>
             (case decode content of
                Inl e \<Rightarrow> Inl e
              | Inr text \<Rightarrow> Inr (Some (str_strip (universal_newlines text))))))"

definition update_ref :: "str \<Rightarrow> str \<Rightarrow> fs \<Rightarrow> error + fs" where
  "update_ref commit_hash repo_path files =
     write_file files (master_ref_path repo_path) (commit_hash @ [LF])"

text \<open>\<open>'\n'.join(lines)\<close>.\<close>

fun join_lines :: "str list \<Rightarrow> str" where
  "join_lines [] = []"
| "join_lines [l] = l"
| "join_lines (l # m # ls) = l @ [LF] @ join_lines (m # ls)"

text \<open>The second line of a commit: \<open>f'parent {parent_commit}' if parent_commit else ''\<close>;
  \<open>None\<close> and the empty string count as false.\<close>

fun parent_line :: "str option \<Rightarrow> str" where
  "parent_line None = []"
| "parent_line (Some parent_commit) =
     (if parent_commit \<noteq> [] then ''parent '' @ parent_commit else [])"

definition author_time :: "int \<Rightarrow> int \<Rightarrow> str" where
  "author_time timestamp timezone =
     (let utc_offset = - timezone
      in py_str timestamp @ '' '' @ (if utc_offset > 0 then ''+'' else ''-'')
         @ zero_pad 2 (py_str (\<bar>utc_offset\<bar> div 3600))
         @ zero_pad 2 (py_str ((\<bar>utc_offset\<bar> div 60) mod 60)))"

definition commit_data :: "str \<Rightarrow> str option \<Rightarrow> str \<Rightarrow> str \<Rightarrow> str \<Rightarrow> bytes" where
  "commit_data tree_hash parent_commit author atime message =
     join_lines
       [''tree '' @ tree_hash,
        parent_line parent_commit,
        ''author '' @ author @ '' '' @ atime,
        ''committer '' @ author @ '' '' @ atime,
        [],
        message,
        []]"

text \<open>
  \<open>create_commit\<close>: the clock (\<open>int(time.mktime(time.localtime()))\<close>) and
  \<open>time.timezone\<close> are inputs. It returns the commit hash and the file system it
  leaves; the line it prints is left out.
\<close>

definition create_commit ::
  "lib \<Rightarrow> int \<Rightarrow> int \<Rightarrow> str \<Rightarrow> str \<Rightarrow> str \<Rightarrow> fs \<Rightarrow> error + (str \<times> fs)" where
  "create_commit L timestamp timezone message author repo_path files =
     (case write_tree L repo_path files of
        Inl e \<Rightarrow> Inl e
      | Inr (tree_hash, files1) \<Rightarrow>
          (case get_latest_commit files1 repo_path of
             Inl e \<Rightarrow> Inl e
           | Inr parent_commit \<Rightarrow>
               (let (commit_hash, files2) =
                      store_object L
                        (commit_data tree_hash parent_commit author
                           (author_time timestamp timezone) message)
                        ''commit'' repo_path files1
                in case update_ref commit_hash repo_path files2 of
                     Inl e \<Rightarrow> Inl e
                   | Inr files3 \<Rightarrow> Inr (commit_hash, files3))))"

text \<open>\<open>b.find(c, start)\<close>: a negative start counts from the end; \<open>-1\<close> when there
  is no such byte.\<close>

definition bytes_find :: "bytes \<Rightarrow> char \<Rightarrow> int \<Rightarrow> int" where
  "bytes_find b c start =
     (let s = (if start < 0 then max 0 (int (length b) + start) else start)
      in if c \<in> set (drop (nat s) b)
         then s + int (length (takeWhile (\<lambda>x. x \<noteq> c) (drop (nat s) b)))
         else - 1)"

text \<open>
  The traversals call themselves through the store, and the \<open>while\<close> loop over a tree
  need not end on every byte string, so they run on fuel: one unit for each call and each
  round of a loop. \<open>None\<close> says the fuel ran out; \<open>Some (Inl e)\<close> that \<open>e\<close> was raised.
\<close>

fun find_tree_objects :: "nat \<Rightarrow> lib \<Rightarrow> fs \<Rightarrow> str \<Rightarrow> str \<Rightarrow> (error + str set) option"
  and tree_loop ::
    "nat \<Rightarrow> lib \<Rightarrow> fs \<Rightarrow> str \<Rightarrow> bytes \<Rightarrow> nat \<Rightarrow> str set \<Rightarrow> (error + str set) option" where
  "find_tree_objects 0 L files repo_path tree_sha1 = None"
| "find_tree_objects (Suc n) L files repo_path tree_sha1 =
     (case retrieve_object L files repo_path tree_sha1 of
        Inl e \<Rightarrow> Some (Inl e)
      | Inr (_, tree_data) \<Rightarrow> tree_loop n L files repo_path tree_data 0 {tree_sha1})"
| "tree_loop 0 L files repo_path tree_data i objects = None"
| "tree_loop (Suc n) L files repo_path tree_data i objects =
     (if i < length tree_data then
        (let mode_end = bytes_find tree_data CHR '' '' (int i);
             sha_start = nat (bytes_find tree_data NUL mode_end + 1);
             sha1_hex = hex (slice tree_data sha_start (sha_start + 20));
             objects' = insert sha1_hex objects
         in case retrieve_object L files repo_path sha1_hex of
              Inl e \<Rightarrow> Some (Inl e)
            | Inr (obj_type, _) \<Rightarrow>
                if obj_type = ''tree'' then
                  (case find_tree_objects n L files repo_path sha1_hex of
                     None \<Rightarrow> None
                   | Some (Inl e) \<Rightarrow> Some (Inl e)
                   | Some (Inr sub) \<Rightarrow>
                       tree_loop n L files repo_path tree_data (sha_start + 20) (objects' \<union> sub))
                else tree_loop n L files repo_path tree_data (sha_start + 20) objects')
      else Some (Inr objects))"

text \<open>The \<open>for\<close> loop over the parents: the results of the calls, taken in order; the
  first that does not return a set ends the loop.\<close>

fun update_all :: "str set \<Rightarrow> (error + str set) option list \<Rightarrow> (error + str set) option" where
  "update_all objects [] = Some (Inr objects)"
| "update_all objects (None # rs) = None"
| "update_all objects (Some (Inl e) # rs) = Some (Inl e)"
| "update_all objects (Some (Inr sub) # rs) = update_all (objects \<union> sub) rs"

definition tree_lines :: "str list \<Rightarrow> str list" where
  "tree_lines lines =
     map (\<lambda>line. str_slice line 5 45) (filter (\<lambda>line. startswith line ''tree '') lines)"

definition parent_hashes :: "str list \<Rightarrow> str list" where
  "parent_hashes lines =
     map (\<lambda>line. str_slice line 7 47) (filter (\<lambda>line. startswith line ''parent '') lines)"

fun find_commit_objects :: "nat \<Rightarrow> lib \<Rightarrow> fs \<Rightarrow> str \<Rightarrow> str \<Rightarrow> (error + str set) option" where
  "find_commit_objects 0 L files repo_path commit_sha1 = None"
| "find_commit_objects (Suc n) L files repo_path commit_sha1 =
     (case retrieve_object L files repo_path commit_sha1 of
        Inl e \<Rightarrow> Some (Inl e)
      | Inr (obj_type, body) \<Rightarrow>
          if obj_type \<noteq> ''commit'' then Some (Inl AssertionError)
          else
            (case decode body of
               Inl e \<Rightarrow> Some (Inl e)
             | Inr text \<Rightarrow>
                 (case tree_lines (splitlines text) of
                    [] \<Rightarrow> Some (Inl StopIteration)
                  | tree_hash # _ \<Rightarrow>
                      (case find_tree_objects n L files repo_path tree_hash of
                         None \<Rightarrow> None
                       | Some (Inl e) \<Rightarrow> Some (Inl e)
                       | Some (Inr sub) \<Rightarrow>
                           update_all ({commit_sha1} \<union> sub)
                             (map (find_commit_objects n L files repo_path)
                                (parent_hashes (splitlines text)))))))"

section \<open>remote\_manager.py\<close>

text \<open>The network is a parameter: \<open>http_request url username password data\<close> is the
  body of the response, or the error raised.\<close>

type_synonym http = "str \<Rightarrow> str \<Rightarrow> str \<Rightarrow> bytes option \<Rightarrow> error + bytes"

text \<open>The \<open>for\<close> loop of \<open>get_remote_master_hash\<close>.\<close>

fun scan_lines :: "bytes list \<Rightarrow> error + str option" where
  "scan_lines [] = Inr None"
| "scan_lines (line # rest) =
     (if startswith line ''00'' then scan_lines rest
      else if contains line ''refs/heads/master'' then
        (case bytes_split line of
           [] \<Rightarrow> Inl IndexError
         | w # _ \<Rightarrow> (case decode w of Inl e \<Rightarrow> Inl e | Inr remote_hash \<Rightarrow> Inr (Some remote_hash)))
      else scan_lines rest)"

definition get_remote_master_hash :: "http \<Rightarrow> str \<Rightarrow> str \<Rightarrow> str \<Rightarrow> error + str option" where
  "get_remote_master_hash http_request git_url username password =
     (case http_request (git_url @ ''/info/refs?service=git-receive-pack'') username password None of
        Inl e \<Rightarrow> Inl e
      | Inr response \<Rightarrow> scan_lines (split_on LF response []))"

text \<open>\<open>if remote_sha1:\<close> is false for \<open>None\<close> and for the empty string.\<close>

definition find_missing_objects ::
  "nat \<Rightarrow> lib \<Rightarrow> fs \<Rightarrow> str \<Rightarrow> str \<Rightarrow> str option \<Rightarrow> (error + str set) option" where
  "find_missing_objects n L files repo_path local_sha1 remote_sha1 =
     (case find_commit_objects n L files repo_path local_sha1 of
        None \<Rightarrow> None
      | Some (Inl e) \<Rightarrow> Some (Inl e)
      | Some (Inr local_objects) \<Rightarrow>
          (case remote_sha1 of
             None \<Rightarrow> Some (Inr local_objects)
           | Some r \<Rightarrow>
               if r \<noteq> [] then
                 (case find_commit_objects n L files repo_path r of
                    None \<Rightarrow> None
                  | Some (Inl e) \<Rightarrow> Some (Inl e)
                  | Some (Inr remote_objects) \<Rightarrow> Some (Inr (local_objects - remote_objects)))
               else Some (Inr local_objects)))"

text \<open>\<open>remote_manager\<close> has a \<open>retrieve_object\<close> of its own, which \<open>create_pack\<close>
  calls: it opens the file without asking whether it exists, and takes the first word of
  the header.\<close>

definition retrieve_object_rm :: "lib \<Rightarrow> fs \<Rightarrow> str \<Rightarrow> str \<Rightarrow> error + (str \<times> bytes)" where
  "retrieve_object_rm L files repo_path sha1_hash =
     (case read_file files (object_path repo_path sha1_hash) of
        Inl e \<Rightarrow> Inl e
      | Inr compressed_data \<Rightarrow>
          (case zlib_decompress L compressed_data of
             None \<Rightarrow> Inl ZlibError
           | Some decompressed_data \<Rightarrow>
               (case split_nul1 decompressed_data of
                  [header, data] \<Rightarrow>
                    (case decode header of
                       Inl e \<Rightarrow> Inl e
                     | Inr h \<Rightarrow>
                         (case str_split h of
                            [] \<Rightarrow> Inl IndexError
                          | obj_type # _ \<Rightarrow> Inr (obj_type, data)))
                | _ \<Rightarrow> Inl (ValueError ''not enough values to unpack (expected 2, got 1)''))))"

definition type_num :: "str \<Rightarrow> nat option" where
  "type_num obj_type =
     (if obj_type = ''commit'' then Some 1
      else if obj_type = ''tree'' then Some 2
      else if obj_type = ''blob'' then Some 3
      else None)"

text \<open>The \<open>while size:\<close> loop of \<open>pack_object\<close>.\<close>

function size_bytes :: "nat \<Rightarrow> nat list" where
  "size_bytes sz =
     (if sz \<noteq> 0 then (sz AND 0x7f OR 0x80) # size_bytes (drop_bit 7 sz) else [])"
  by pat_completeness auto
termination
  by (relation "measure id") (auto simp: drop_bit_eq_div)

declare size_bytes.simps [simp del]

definition pack_header :: "nat \<Rightarrow> nat \<Rightarrow> nat list" where
  "pack_header tn sz = (push_bit 4 tn OR (sz AND 0x0f)) # size_bytes (drop_bit 4 sz)"

definition pack_object :: "lib \<Rightarrow> str \<Rightarrow> bytes \<Rightarrow> error + bytes" where
  "pack_object L obj_type data =
     (case type_num obj_type of
        None \<Rightarrow> Inl KeyError
      | Some tn \<Rightarrow> Inr (map char_of (pack_header tn (length data)) @ zlib_compress L data))"

text \<open>The \<open>for\<close> loop of \<open>create_pack\<close>.\<close>

fun pack_all :: "lib \<Rightarrow> fs \<Rightarrow> str \<Rightarrow> str list \<Rightarrow> bytes \<Rightarrow> error + bytes" where
  "pack_all L files repo_path [] body = Inr body"
| "pack_all L files repo_path (sha # rest) body =
     (case retrieve_object_rm L files repo_path sha of
        Inl e \<Rightarrow> Inl e
      | Inr (obj_type, data) \<Rightarrow>
          (case pack_object L obj_type data of
             Inl e \<Rightarrow> Inl e
           | Inr packed_obj \<Rightarrow> pack_all L files repo_path rest (body @ packed_obj)))"

text \<open>\<open>objects\<close> is a Python set: finite. \<open>sorted\<close> orders strings by code point, which
  is the order of their UTF-8 bytes.\<close>

definition create_pack :: "lib \<Rightarrow> fs \<Rightarrow> str \<Rightarrow> str set \<Rightarrow> error + bytes" where
  "create_pack L files repo_path objects =
     (case pack_uint 4 (int (card objects)) of
        Inl e \<Rightarrow> Inl e
      | Inr count \<Rightarrow>
          (case pack_all L files repo_path (sorted_list_of_set objects) [] of
             Inl e \<Rightarrow> Inl e
           | Inr body \<Rightarrow>
               (let full_data = (''PACK'' @ be_bytes 4 2 @ count) @ body
                in Inr (full_data @ lib_sha1 L full_data))))"

section \<open>A stand-in for the libraries\<close>

text \<open>
  Where a statement is evaluated on concrete data, the library functions have to be
  concrete too. \<open>toy_lib\<close> stands in for them. Its digest of \<open>blob 5\0hello\<close> is the
  one \<open>hashlib.sha1\<close> gives, \<open>b6fc4c620b67d95f953a5c1c1230aaab5db5a1b0\<close>; of any other
  input it is a 20-byte checksum. Its compressed stream is the data after a one-byte
  tag, and like \<open>zlib.decompress\<close> it rejects the empty stream. Nothing is claimed of
  \<open>toy_lib\<close> beyond what the evaluations show.
\<close>

definition sha1_blob_hello :: bytes where
  "sha1_blob_hello =
     [CHR 0xb6, CHR 0xfc, CHR 0x4c, CHR 0x62, CHR 0x0b, CHR 0x67, CHR 0xd9, CHR 0x5f, CHR 0x95,
      CHR 0x3a, CHR 0x5c, CHR 0x1c, CHR 0x12, CHR 0x30, CHR 0xaa, CHR 0xab, CHR 0x5d, CHR 0xb5,
      CHR 0xa1, CHR 0xb0]"

definition toy_sha1 :: "bytes \<Rightarrow> bytes" where
  "toy_sha1 b =
     (if b = ''blob 5'' @ [NUL] @ ''hello'' then sha1_blob_hello
      else map (\<lambda>k. char_of (sum_list (map byte b) + k * length b)) [0..<20])"

definition toy_compress :: "bytes \<Rightarrow> bytes" where
  "toy_compress b = CHR ''z'' # b"

fun toy_decompress :: "bytes \<Rightarrow> bytes option" where
  "toy_decompress [] = None"
| "toy_decompress (c # b) = (if c = CHR ''z'' then Some b else None)"

definition toy_lib :: lib where
  "toy_lib = \<lparr> lib_sha1 = toy_sha1, zlib_compress = toy_compress, zlib_decompress = toy_decompress \<rparr>"

text \<open>What \<open>os.stat\<close> reports in the evaluations: a regular file of five bytes with
  mode \<open>0o100644\<close>.\<close>

definition toy_stat :: "str \<Rightarrow> stat_result" where
  "toy_stat p =
     \<lparr> st_ctime = 1, st_mtime = 2, st_dev = 3, st_ino = 4, st_mode = 33188, st_uid = 6,
       st_gid = 7, st_size = 5 \<rparr>"

text \<open>
  The scenario of claim C5: \<open>a.txt\<close> holds \<open>hello\<close> and is added to an empty repository.
  \<open>hello_entry\<close> is the entry that \<open>add_to_index\<close> builds, \<open>hello_index\<close> the index file
  it writes, up to the trailing digest, and \<open>hello_store\<close> the file system it leaves.
\<close>

definition hello_entry :: IndexEntry where
  "hello_entry =
     \<lparr> ctime_s = 1, ctime_n = 0, mtime_s = 2, mtime_n = 0, dev = 3, ino = 4, mode = 33188,
       uid = 6, gid = 7, size' = 5, sha1 = ''b6fc4c620b67d95f953a5c1c1230aaab5db5a1b0'',
       flags = 0, path = ''a.txt'' \<rparr>"

definition hello_index :: bytes where
  "hello_index =
     ''DIRC'' @ [NUL, NUL, NUL, CHR 0x02] @ [NUL, NUL, NUL, CHR 0x01]
     @ [NUL, NUL, NUL, CHR 0x01, NUL, NUL, NUL, NUL, NUL, NUL, NUL, CHR 0x02, NUL, NUL, NUL, NUL,
        NUL, NUL, NUL, CHR 0x03, NUL, NUL, NUL, CHR 0x04, NUL, NUL, CHR 0x81, CHR 0xa4,
        NUL, NUL, NUL, CHR 0x06, NUL, NUL, NUL, CHR 0x07, NUL, NUL, NUL, CHR 0x05]
     @ ''b6fc4c620b67d95f953a'' @ [NUL, NUL] @ ''a.txt'' @ [NUL] @ replicate 4 NUL"

definition hello_store :: fs where
  "hello_store =
     [''a.txt'' \<mapsto> File ''hello'',
      ''repo/.git/objects/b6/fc4c620b67d95f953a5c1c1230aaab5db5a1b0''
        \<mapsto> File (toy_compress (''blob 5'' @ [NUL] @ ''hello'')),
      ''repo/.git/index'' \<mapsto> File (hello_index @ toy_sha1 hello_index)]"

text \<open>
  The scenario of claim C4: an index of two entries, the first for a file whose name is the
  one character U+00E9 (the two bytes \<open>c3 a9\<close>), the second for a file named \<open>b\<close>. \<open>two_index\<close> is the index
  file that \<open>write_index\<close> makes of them, up to the trailing digest; \<open>two_store\<close> is a
  file system that holds it; \<open>entry_b_read\<close> is what \<open>read_index\<close> returns in the place of
  the second entry.
\<close>

definition entry_accent :: IndexEntry where
  "entry_accent =
     \<lparr> ctime_s = 1, ctime_n = 0, mtime_s = 2, mtime_n = 0, dev = 3, ino = 4, mode = 33188,
       uid = 6, gid = 7, size' = 5, sha1 = ''aaaaaaaaaaaaaaaaaaaa'', flags = 0,
       path = [CHR 0xC3, CHR 0xA9] \<rparr>"

definition entry_b :: IndexEntry where
  "entry_b =
     \<lparr> ctime_s = 11, ctime_n = 0, mtime_s = 12, mtime_n = 0, dev = 13, ino = 14, mode = 33188,
       uid = 16, gid = 17, size' = 15, sha1 = ''bbbbbbbbbbbbbbbbbbbb'', flags = 0,
       path = ''b'' \<rparr>"

definition entry_b_read :: IndexEntry where
  "entry_b_read =
     \<lparr> ctime_s = 0, ctime_n = 0, mtime_s = 11, mtime_n = 0, dev = 12, ino = 0, mode = 13,
       uid = 14, gid = 33188, size' = 16,
       sha1 = [NUL, NUL, NUL, CHR 0x11, NUL, NUL, NUL, CHR 0x0f] @ ''bbbbbbbbbbbb'',
       flags = 25186, path = ''bbbbbb'' \<rparr>"

definition two_index :: bytes where
  "two_index =
     ''DIRC'' @ [NUL, NUL, NUL, CHR 0x02] @ [NUL, NUL, NUL, CHR 0x02]
     @ [NUL, NUL, NUL, CHR 0x01, NUL, NUL, NUL, NUL, NUL, NUL, NUL, CHR 0x02, NUL, NUL, NUL, NUL,
        NUL, NUL, NUL, CHR 0x03, NUL, NUL, NUL, CHR 0x04, NUL, NUL, CHR 0x81, CHR 0xa4,
        NUL, NUL, NUL, CHR 0x06, NUL, NUL, NUL, CHR 0x07, NUL, NUL, NUL, CHR 0x05]
     @ ''aaaaaaaaaaaaaaaaaaaa'' @ [NUL, NUL] @ [CHR 0xC3, CHR 0xA9] @ [NUL]
     @ [NUL, NUL, NUL, NUL, NUL, NUL, NUL]
     @ [NUL, NUL, NUL, CHR 0x0b, NUL, NUL, NUL, NUL, NUL, NUL, NUL, CHR 0x0c, NUL, NUL, NUL, NUL,
        NUL, NUL, NUL, CHR 0x0d, NUL, NUL, NUL, CHR 0x0e, NUL, NUL, CHR 0x81, CHR 0xa4,
        NUL, NUL, NUL, CHR 0x10, NUL, NUL, NUL, CHR 0x11, NUL, NUL, NUL, CHR 0x0f]
     @ ''bbbbbbbbbbbbbbbbbbbb'' @ [NUL, NUL] @ ''b'' @ [NUL]"

definition two_store :: fs where
  "two_store = [''repo/.git/index'' \<mapsto> File (two_index @ toy_sha1 two_index)]"

section \<open>Notions used in the statements\<close>


section \<open>Facts about the Python values\<close>



















lemma upt_4: "[0..<4] = [0, 1, 2, 3::nat]" "[0..<2] = [0, 1::nat]"
  by code_simp+

lemma be_bytes_4:
  "be_bytes 4 n
     = [char_of (n div 16777216), char_of (n div 65536), char_of (n div 256), char_of n]"
  by (simp add: be_bytes_def upt_4)

lemma be_bytes_2: "be_bytes 2 n = [char_of (n div 256), char_of n]"
  by (simp add: be_bytes_def upt_4)

lemma read_index_absent:
  "files (index_file_path repo) = None \<Longrightarrow> read_index files repo = Inr []"
  by (simp add: read_index_def)

lemma read_index_file:
  assumes "files (index_file_path repo) = Some (File data)" "12 \<le> length data"
    "slice data 0 4 = ''DIRC''" "be_value (slice data 4 8) = 2"
  shows "read_index files repo = read_entries (drop 12 data) 0 []"
  using assms by (simp add: read_index_def read_file_def)

section \<open>Facts about the stand-in library\<close>

lemma toy_lib_sel:
  "lib_sha1 toy_lib = toy_sha1" "zlib_compress toy_lib = toy_compress"
  "zlib_decompress toy_lib = toy_decompress"
  by (simp_all add: toy_lib_def)

lemma hex_sha1_blob_hello: "hex sha1_blob_hello = ''b6fc4c620b67d95f953a5c1c1230aaab5db5a1b0''"
  by (simp add: hex_def sha1_blob_hello_def digit_char_def byte_def)

lemma py_str_5: "py_str 5 = ''5''"
  by (simp add: py_str_def to_base.simps [of 10 5] digit_char_def)

lemma compute_hash_hello:
  "compute_hash toy_lib ''hello'' ''blob''
     = (''b6fc4c620b67d95f953a5c1c1230aaab5db5a1b0'', ''blob 5'' @ [NUL] @ ''hello'')"
  by (simp add: compute_hash_def hexdigest_def toy_lib_sel toy_sha1_def py_str_5
      hex_sha1_blob_hello)

lemma object_path_hello:
  "object_path ''repo'' ''b6fc4c620b67d95f953a5c1c1230aaab5db5a1b0''
     = ''repo/.git/objects/b6/fc4c620b67d95f953a5c1c1230aaab5db5a1b0''"
  by (simp add: object_path_def os_path_join_def join2_def startswith_def str_take_def
      str_drop_def is_cont_def byte_def)

lemma length_toy_sha1: "length (toy_sha1 b) = 20"
  by (simp add: toy_sha1_def sha1_blob_hello_def)

lemma index_file_path_repo: "index_file_path ''repo'' = ''repo/.git/index''"
  by (simp add: index_file_path_def os_path_join_def join2_def startswith_def)

section \<open>Storing and retrieving an object\<close>




section \<open>Writing and reading the index\<close>

lemma replicate_7_NUL: "replicate 7 NUL = [NUL, NUL, NUL, NUL, NUL, NUL, NUL]"
  by code_simp

lemma index_bytes_two:
  "index_bytes toy_lib [entry_accent, entry_b] = Inr (two_index @ toy_sha1 two_index)"
  by (simp add: index_bytes_def pack_uint_def pack_entry_def pack_s_def be_bytes_4 be_bytes_2
      entry_accent_def entry_b_def two_index_def toy_lib_sel char_of_def bit_iff_odd
      replicate_7_NUL)

lemma read_back_two:
  assumes "length s = 20"
  shows "read_entries (drop 12 (two_index @ s)) 0 [] = Inr [entry_accent, entry_b_read]"
  using assms
  by (simp add: read_entries.simps [of _ 0] read_entries.simps [of _ 64]
      read_entries.simps [of _ 136] two_index_def
      index_from_def slice_def decode_def str_len_def is_cont_def second_ok_def byte_def
      unpack_entry_def be_value_def entry_accent_def entry_b_read_def)

lemma index_header_two:
  "12 \<le> length (two_index @ s)" "slice (two_index @ s) 0 4 = ''DIRC''"
  "be_value (slice (two_index @ s) 4 8) = 2"
  by (simp_all add: two_index_def slice_def be_value_def byte_def)

lemma write_index_two:
  "write_index toy_lib [entry_accent, entry_b] ''repo'' Map.empty = Inr two_store"
  by (simp add: write_index_def index_bytes_two write_file_def index_file_path_repo
      two_store_def)

lemma read_index_two: "read_index two_store ''repo'' = Inr [entry_accent, entry_b_read]"
proof -
  have "read_index two_store ''repo''
          = read_entries (drop 12 (two_index @ toy_sha1 two_index)) 0 []"
    by (rule read_index_file [OF _ index_header_two])
      (simp add: index_file_path_repo two_store_def)
  also have "\<dots> = Inr [entry_accent, entry_b_read]"
    by (rule read_back_two [OF length_toy_sha1])
  finally show ?thesis .
qed

text \<open>
  Claim C4. The two entries \<open>entry_accent\<close> and \<open>entry_b\<close> are well formed: fields below
  \<open>2^32\<close>, a \<open>sha1\<close> of twenty bytes, flags 0, paths without NUL. \<open>write_index\<close> pads the
  first entry to 72 bytes, counting the two bytes of its path; \<open>read_index\<close> counts the
  one character of the path and goes on 64 bytes after the start of the entry, eight
  bytes before the second one. It returns the first entry and, in the place of the second,
  \<open>entry_b_read\<close>.
\<close>

theorem index_round_trip_two_entries:
  "write_index toy_lib [entry_accent, entry_b] ''repo'' Map.empty = Inr two_store
   \<and> read_index two_store ''repo'' = Inr [entry_accent, entry_b_read]
   \<and> entry_b_read \<noteq> entry_b"
proof -
  have "path entry_b_read \<noteq> path entry_b"
    by (simp add: entry_b_read_def entry_b_def)
  then have "entry_b_read \<noteq> entry_b" by auto
  with write_index_two read_index_two show ?thesis by blast
qed

section \<open>Adding a file and listing the index\<close>

lemma store_hello:
  "store_object toy_lib ''hello'' ''blob'' ''repo'' [''a.txt'' \<mapsto> File ''hello'']
     = (''b6fc4c620b67d95f953a5c1c1230aaab5db5a1b0'',
        [''a.txt'' \<mapsto> File ''hello'',
         ''repo/.git/objects/b6/fc4c620b67d95f953a5c1c1230aaab5db5a1b0''
           \<mapsto> File (toy_compress (''blob 5'' @ [NUL] @ ''hello''))])"
  by (simp add: store_object_def compute_hash_hello object_path_hello toy_lib_sel)

lemma add_hello:
  "add_paths toy_lib toy_stat [''a.txt''] ''repo'' [] [''a.txt'' \<mapsto> File ''hello'']
     = Inr ([(''a.txt'', hello_entry)],
            [''a.txt'' \<mapsto> File ''hello'',
             ''repo/.git/objects/b6/fc4c620b67d95f953a5c1c1230aaab5db5a1b0''
               \<mapsto> File (toy_compress (''blob 5'' @ [NUL] @ ''hello''))])"
  by (simp add: read_file_def store_hello toy_stat_def dict_set_def hello_entry_def)

lemma index_bytes_hello:
  "index_bytes toy_lib [hello_entry] = Inr (hello_index @ toy_sha1 hello_index)"
  by (simp add: index_bytes_def pack_uint_def pack_entry_def pack_s_def be_bytes_4 be_bytes_2
      hello_entry_def hello_index_def toy_lib_sel char_of_def bit_iff_odd)

lemma add_to_index_hello:
  "add_to_index toy_lib toy_stat [''a.txt''] ''repo'' [''a.txt'' \<mapsto> File ''hello'']
     = Inr hello_store"
  by (simp add: add_to_index_def read_index_absent index_file_path_repo add_hello
      write_index_def index_bytes_hello write_file_def hello_store_def del: add_paths.simps)

lemma read_back_hello:
  assumes "length s = 20"
  shows "read_entries (drop 12 (hello_index @ s)) 0 []
     = Inr [hello_entry \<lparr> sha1 := ''b6fc4c620b67d95f953a'' \<rparr>]"
  using assms
  by (simp add: read_entries.simps [of _ 0] read_entries.simps [of _ 72] hello_index_def
      index_from_def slice_def decode_def str_len_def is_cont_def byte_def unpack_entry_def
      be_value_def hello_entry_def)

lemma index_header_hello:
  "12 \<le> length (hello_index @ s)" "slice (hello_index @ s) 0 4 = ''DIRC''"
  "be_value (slice (hello_index @ s) 4 8) = 2"
  by (simp_all add: hello_index_def slice_def be_value_def byte_def)

lemma read_index_hello:
  "read_index hello_store ''repo'' = Inr [hello_entry \<lparr> sha1 := ''b6fc4c620b67d95f953a'' \<rparr>]"
proof -
  have "read_index hello_store ''repo''
          = read_entries (drop 12 (hello_index @ toy_sha1 hello_index)) 0 []"
    by (rule read_index_file [OF _ index_header_hello])
      (simp add: index_file_path_repo hello_store_def)
  also have "\<dots> = Inr [hello_entry \<lparr> sha1 := ''b6fc4c620b67d95f953a'' \<rparr>]"
    by (rule read_back_hello [OF length_toy_sha1])
  finally show ?thesis .
qed

lemma py_oct_33188: "py_oct 33188 = ''100644''"
  by (simp add: py_oct_def to_base.simps digit_char_def)

lemma hex_half_digest:
  "hex ''b6fc4c620b67d95f953a'' = ''6236666334633632306236376439356639353361''"
  by (simp add: hex_def digit_char_def byte_def)

text \<open>
  Claim C5. \<open>a.txt\<close> holds the five bytes \<open>hello\<close>, and \<open>add_to_index\<close> is run on it in an
  empty repository. It stores the blob under its hash
  \<open>b6fc4c620b67d95f953a5c1c1230aaab5db5a1b0\<close>, and writes the index \<open>hello_index\<close>, in
  which the \<open>sha1\<close> field holds the first twenty characters of that hash as text.
  \<open>list_index\<close> then prints the hexadecimal form of these twenty characters,
  \<open>6236666334633632306236376439356639353361\<close>, which is not the hash of the blob.
\<close>

theorem add_hello_then_status:
  "add_to_index toy_lib toy_stat [''a.txt''] ''repo'' [''a.txt'' \<mapsto> File ''hello'']
     = Inr hello_store
   \<and> hello_store ''repo/.git/objects/b6/fc4c620b67d95f953a5c1c1230aaab5db5a1b0''
       = Some (File (zlib_compress toy_lib (''blob 5'' @ [NUL] @ ''hello'')))
   \<and> hexdigest toy_lib (''blob 5'' @ [NUL] @ ''hello'')
       = ''b6fc4c620b67d95f953a5c1c1230aaab5db5a1b0''
   \<and> list_index hello_store ''repo''
       = Inr [''100644 6236666334633632306236376439356639353361 a.txt'']"
proof -
  have stored: "hello_store ''repo/.git/objects/b6/fc4c620b67d95f953a5c1c1230aaab5db5a1b0''
       = Some (File (zlib_compress toy_lib (''blob 5'' @ [NUL] @ ''hello'')))"
    by (simp add: hello_store_def toy_lib_sel)
  have digest: "hexdigest toy_lib (''blob 5'' @ [NUL] @ ''hello'')
       = ''b6fc4c620b67d95f953a5c1c1230aaab5db5a1b0''"
    by (simp add: hexdigest_def toy_lib_sel toy_sha1_def hex_sha1_blob_hello)
  have listed: "list_index hello_store ''repo''
       = Inr [''100644 6236666334633632306236376439356639353361 a.txt'']"
    by (simp add: list_index_def read_index_hello hello_entry_def py_oct_33188 hex_half_digest)
  from add_to_index_hello stored digest listed show ?thesis by blast
qed

section \<open>The pack record header\<close>

text \<open>
  Claim C6. The record header of a packed object carries the kind in the upper nibble of
  its first byte and the length as a varint whose continuation bit is set exactly on the
  bytes that are followed by another length byte. \<open>pack_object\<close> does not do this: on a
  16-byte blob it writes the two header bytes \<open>0x30 0x81\<close>. The first byte has its
  continuation bit clear although a length byte follows, and the last byte has it set
  although none follows.
\<close>

theorem pack_object_16_bytes:
  "pack_object L ''blob'' (replicate 16 CHR ''a'')
     = Inr ([CHR 0x30, CHR 0x81] @ zlib_compress L (replicate 16 CHR ''a''))"
  by (simp add: pack_object_def type_num_def pack_header_def size_bytes.simps [of 1]
      size_bytes.simps [of "Suc 0"] size_bytes.simps [of 0] drop_bit_eq_div char_of_def
      bit_iff_odd)

section \<open>Validation of the index file\<close>

text \<open>
  An index file of eight bytes with the right signature and version 2: \<open>read_index\<close>
  raises \<open>struct.error\<close>, which is neither of its two \<open>ValueError\<close>s, and it does not
  reach the entries.
\<close>

theorem read_index_short_file:
  "slice (''DIRC'' @ [NUL, NUL, NUL, CHR 0x02]) 0 4 = ''DIRC''
   \<and> be_value (slice (''DIRC'' @ [NUL, NUL, NUL, CHR 0x02]) 4 8) = 2
   \<and> read_index [index_file_path ''repo'' \<mapsto> File (''DIRC'' @ [NUL, NUL, NUL, CHR 0x02])] ''repo''
       = Inl StructError"
  by (simp add: read_index_def read_file_def slice_def be_value_def byte_def)

text \<open>
  Claim C9, with the length of the file taken into account. When nothing exists at the path
  of the index, \<open>read_index\<close> returns the empty list; when a directory is there, opening it
  raises \<open>IsADirectoryError\<close>. With a file of fewer than twelve bytes it raises
  \<open>struct.error\<close>, whatever the bytes are. With a file of twelve bytes or more it raises
  \<open>ValueError\<close> when the signature is not \<open>DIRC\<close> or the version is not 2, and
  otherwise its result is that of the loop over the entries, started after the header.
\<close>

theorem read_index_validation:
  "(files (index_file_path repo) = None \<longrightarrow> read_index files repo = Inr [])
   \<and> (files (index_file_path repo) = Some Dir \<longrightarrow> read_index files repo = Inl IsADirectoryError)
   \<and> (\<forall>data. files (index_file_path repo) = Some (File data) \<longrightarrow>
         (if length data < 12
          then read_index files repo = Inl StructError
          else if slice data 0 4 \<noteq> ''DIRC''
          then read_index files repo = Inl (ValueError ''Invalid index file signature'')
          else if be_value (slice data 4 8) \<noteq> 2
          then read_index files repo = Inl (ValueError ''Unsupported index file version'')
          else read_index files repo = read_entries (drop 12 data) 0 []))"
  by (auto simp add: read_index_def read_file_def)

theorem read_index_validation_witness:
  "read_index Map.empty ''repo'' = Inr []
   \<and> read_index [index_file_path ''repo'' \<mapsto> Dir] ''repo'' = Inl IsADirectoryError
   \<and> read_index [index_file_path ''repo'' \<mapsto> File ''XIR''] ''repo'' = Inl StructError
   \<and> read_index [index_file_path ''repo'' \<mapsto> File (''XIRC'' @ replicate 8 NUL)] ''repo''
       = Inl (ValueError ''Invalid index file signature'')
   \<and> read_index
         [index_file_path ''repo''
            \<mapsto> File (''DIRC'' @ [NUL, NUL, NUL, CHR 0x03] @ replicate 4 NUL)]
         ''repo''
       = Inl (ValueError ''Unsupported index file version'')
   \<and> read_index
         [index_file_path ''repo''
            \<mapsto> File (''DIRC'' @ [NUL, NUL, NUL, CHR 0x02] @ replicate 4 NUL)]
         ''repo''
       = Inr []"
  using read_index_validation [of Map.empty "''repo''"]
    read_index_validation [of "[index_file_path ''repo'' \<mapsto> Dir]" "''repo''"]
    read_index_validation [of "[index_file_path ''repo'' \<mapsto> File ''XIR'']" "''repo''"]
    read_index_validation
      [of "[index_file_path ''repo'' \<mapsto> File (''XIRC'' @ replicate 8 NUL)]" "''repo''"]
    read_index_validation
      [of "[index_file_path ''repo''
              \<mapsto> File (''DIRC'' @ [NUL, NUL, NUL, CHR 0x03] @ replicate 4 NUL)]"
        "''repo''"]
    read_index_validation
      [of "[index_file_path ''repo''
              \<mapsto> File (''DIRC'' @ [NUL, NUL, NUL, CHR 0x02] @ replicate 4 NUL)]"
        "''repo''"]
  by (simp add: slice_def be_value_def byte_def read_entries.simps)

section \<open>The advertised tip of the remote\<close>

lemma scan_lines_drop_00:
  "startswith line ''00'' \<Longrightarrow> scan_lines (before @ line # after) = scan_lines (before @ after)"
  by (induction before) auto

lemma scan_lines_none_iff:
  "(scan_lines ls = Inr None)
     = (\<forall>l\<in>set ls. contains l ''refs/heads/master'' \<longrightarrow> startswith l ''00'')"
  by (induction ls) (auto split: list.splits sum.splits)

lemma startswith_append: "startswith h p \<Longrightarrow> startswith (h @ t) p"
  by (auto simp: startswith_def)
    (metis append_eq_conv_conj append.assoc take_append length_take min.absorb2 nat_le_linear
      take_all)

text \<open>
  A response whose line for \<open>refs/heads/master\<close> has a hash that begins with \<open>00\<close>, and
  which goes on with a line for \<open>refs/heads/master2\<close>: the first line is skipped, the second
  contains the text \<open>refs/heads/master\<close>, and \<open>get_remote_master_hash\<close> returns the hash
  of \<open>master2\<close>, not \<open>None\<close>.
\<close>

theorem master_hash_00_then_master2:
  "get_remote_master_hash
     (\<lambda>url username password data.
        Inr (''00112233445566778899aabbccddeeff00112233 refs/heads/master'' @ [LF]
             @ ''aabbccddeeff00112233445566778899aabbccdd refs/heads/master2'' @ [LF]))
     ''https://example.org/r.git'' ''u'' ''p''
   = Inr (Some ''aabbccddeeff00112233445566778899aabbccdd'')"
  by (simp add: get_remote_master_hash_def startswith_def bytes_split_def is_space_byte_def
      byte_def decode_def)

text \<open>
  Claim C10, with the other lines of the response taken into account. A line that advertises
  \<open>refs/heads/master\<close> with a hash \<open>h\<close> that begins with \<open>00\<close>, whatever follows the name
  of the ref, is skipped: the result of \<open>get_remote_master_hash\<close> is that of its loop over
  the lines before and after it. The result is \<open>None\<close> exactly when every line that contains
  \<open>refs/heads/master\<close> begins with \<open>00\<close>.
\<close>

theorem master_line_00_skipped:
  assumes "http_request (git_url @ ''/info/refs?service=git-receive-pack'') username password None
             = Inr response"
  shows "(\<forall>before h rest after.
            split_on LF response [] = before @ (h @ '' refs/heads/master'' @ rest) # after
              \<and> startswith h ''00''
            \<longrightarrow> get_remote_master_hash http_request git_url username password
                  = scan_lines (before @ after))
         \<and> ((get_remote_master_hash http_request git_url username password = Inr None)
            = (\<forall>l\<in>set (split_on LF response []).
                 contains l ''refs/heads/master'' \<longrightarrow> startswith l ''00''))"
  using assms
  by (simp add: get_remote_master_hash_def scan_lines_none_iff scan_lines_drop_00
      startswith_append)

theorem master_line_00_skipped_witness:
  "get_remote_master_hash
     (\<lambda>url username password data.
        Inr (''00112233445566778899aabbccddeeff00112233 refs/heads/master'' @ [LF]))
     ''https://example.org/r.git'' ''u'' ''p'' = Inr None"
  using master_line_00_skipped
    [of "\<lambda>url username password data.
        Inr (''00112233445566778899aabbccddeeff00112233 refs/heads/master'' @ [LF])"
      "''https://example.org/r.git''" "''u''" "''p''"
      "''00112233445566778899aabbccddeeff00112233 refs/heads/master'' @ [LF]"]
  by (simp add: startswith_def)

end
